theory Spec2Isabelle
  imports Main "HOL-Library.Sublist"
begin

section \<open>Data model\<close>

text \<open>
  The program is one Python module, \<^verbatim>\<open>main.py\<close>. It keeps its baseline in an SQLite
  file with one table, \<^verbatim>\<open>versions (group_id, artifact_id, version)\<close>, whose primary key is
  \<^verbatim>\<open>(group_id, artifact_id)\<close>; the \<^verbatim>\<open>version\<close> column is nullable. A table is modelled as the
  list of its rows, a row as the key paired with the nullable version. A Python value that
  is either \<^verbatim>\<open>None\<close> or a \<^verbatim>\<open>str\<close> is a \<open>string option\<close>.
\<close>

type_synonym key = "string \<times> string"

type_synonym table = "(key \<times> string option) list"

text \<open>
  What a database path holds. \<open>Usable None\<close> is a file without the \<^verbatim>\<open>versions\<close> table, which
  is also what \<^verbatim>\<open>sqlite3.connect\<close> makes of a path where no file exists yet. The other two are
  the storage faults the \<^verbatim>\<open>except sqlite3.Error\<close> clauses are written for: \<open>Unopenable e\<close> is a
  path where \<^verbatim>\<open>sqlite3.connect\<close> itself raises \<^verbatim>\<open>sqlite3.Error\<close> with message \<open>e\<close>; \<open>Unusable e\<close> is
  a file that opens but on which every statement raises it.
\<close>

datatype db_file = Unopenable string | Unusable string | Usable "table option"

text \<open>
  The exceptions that escape a function of the module: the \<^verbatim>\<open>UnboundLocalError\<close> of the store
  operations (see there), and an exception raised inside \<^verbatim>\<open>get_latest_version\<close> that its
  \<^verbatim>\<open>except\<close> clauses do not name.
\<close>

datatype exn = UnboundLocalError string | Uncaught string

text \<open>
  What one HTTP request for \<^verbatim>\<open>maven-metadata.xml\<close> leads to inside \<^verbatim>\<open>get_latest_version\<close>:
  a \<^verbatim>\<open>requests.exceptions.RequestException\<close> (from \<^verbatim>\<open>requests.get\<close> or \<^verbatim>\<open>raise_for_status\<close>), an
  \<^verbatim>\<open>ET.ParseError\<close> or \<^verbatim>\<open>AttributeError\<close> (no \<^verbatim>\<open>latest\<close> element), each with its message, the
  \<^verbatim>\<open>text\<close> attribute of the \<^verbatim>\<open>latest\<close> element, which is \<^verbatim>\<open>None\<close> for an element without text
  and a non-empty string otherwise, or an exception of another class, which lines 18 to 23 do
  not catch (\<^verbatim>\<open>ET.fromstring\<close> raises \<^verbatim>\<open>ValueError\<close> or \<^verbatim>\<open>LookupError\<close> for a document that declares a
  multi-byte or an unknown encoding).
\<close>

datatype response =
  RequestException string | ParseError string | LatestText "string option" | OtherException string

text \<open>
  The remote repository: the answer to the \<open>n\<close>-th request of the run (counted from 0) for a
  URL. Two requests for one URL may be answered differently.
\<close>

type_synonym remote = "nat \<Rightarrow> string \<Rightarrow> response"

text \<open>An entry of \<^verbatim>\<open>artifacts.json\<close>, read with \<^verbatim>\<open>dict.get\<close>: a missing field is \<^verbatim>\<open>None\<close>.\<close>

record artifact =
  group_id :: "string option"
  artifact_id :: "string option"

datatype artifacts_json = FileNotFound | JSONDecodeError | Loaded "artifact list"

record email =
  Source :: string
  ToAddress :: string
  Subject :: string
  Body :: string

text \<open>
  Everything the module reads and writes outside its own variables: the database files by
  path, the lines printed, the URLs requested so far, the \<^verbatim>\<open>REPLACE\<close> statements committed so
  far (path, key, version), and the messages handed to SES.
\<close>

record world =
  files :: "string \<Rightarrow> db_file"
  stdout :: "string list"
  requests :: "string list"
  commits :: "(string \<times> key \<times> string option) list"
  outbox :: "email list"

section \<open>Python values\<close>

definition print :: "string \<Rightarrow> world \<Rightarrow> world" where
  "print line w = w\<lparr>stdout := stdout w @ [line]\<rparr>"

text \<open>Truth value of \<^verbatim>\<open>None\<close> or a string.\<close>

definition truthy :: "string option \<Rightarrow> bool" where
  "truthy x = (case x of None \<Rightarrow> False | Some s \<Rightarrow> s \<noteq> [])"

text \<open>How an f-string renders \<^verbatim>\<open>None\<close> or a string.\<close>

definition fmt :: "string option \<Rightarrow> string" where
  "fmt x = (case x of None \<Rightarrow> ''None'' | Some s \<Rightarrow> s)"

section \<open>The resolver\<close>

definition metadata_url :: "string \<Rightarrow> string \<Rightarrow> string" where
  "metadata_url g a =
     ''https://repo1.maven.org/maven2/''
       @ map (\<lambda>c. if c = CHR ''.'' then CHR ''/'' else c) g
       @ ''/'' @ a @ ''/maven-metadata.xml''"

definition get_latest_version ::
    "remote \<Rightarrow> string \<Rightarrow> string \<Rightarrow> world \<Rightarrow> (exn + string option) \<times> world" where
  "get_latest_version remote g a w =
     (let url = metadata_url g a;
          w1 = w\<lparr>requests := requests w @ [url]\<rparr>
      in case remote (length (requests w)) url of
           RequestException e \<Rightarrow> (Inr None, print (''Error fetching metadata: '' @ e) w1)
         | ParseError e \<Rightarrow> (Inr None, print (''Error parsing metadata: '' @ e) w1)
         | LatestText t \<Rightarrow> (Inr t, w1)
         | OtherException e \<Rightarrow> (Inl (Uncaught e), w1))"

section \<open>The store\<close>

definition default_db_path :: string where
  "default_db_path = ''artifact_versions.db''"

text \<open>\<^verbatim>\<open>CREATE TABLE IF NOT EXISTS versions\<close>.\<close>

definition create_table_if_not_exists :: "table option \<Rightarrow> table" where
  "create_table_if_not_exists t = (case t of None \<Rightarrow> [] | Some rows \<Rightarrow> rows)"

text \<open>
  \<^verbatim>\<open>SELECT version ... WHERE group_id = ? AND artifact_id = ?\<close>, \<^verbatim>\<open>fetchone\<close>, and the test of the
  result: no row gives \<^verbatim>\<open>None\<close>; a row is a non-empty tuple, so its version is returned, which
  is \<^verbatim>\<open>None\<close> for a row whose version is NULL.
\<close>

definition fetchone_version :: "table \<Rightarrow> key \<Rightarrow> string option" where
  "fetchone_version rows k = (case map_of rows k of None \<Rightarrow> None | Some v \<Rightarrow> v)"

text \<open>
  \<^verbatim>\<open>REPLACE INTO versions\<close>: the row with the same primary key is deleted and the new row
  inserted.
\<close>

definition replace_into :: "table \<Rightarrow> key \<Rightarrow> string option \<Rightarrow> table" where
  "replace_into rows k v = filter (\<lambda>r. fst r \<noteq> k) rows @ [(k, v)]"

text \<open>
  Two path strings name no file: for \<^verbatim>\<open>:memory:\<close> and for the empty string \<^verbatim>\<open>sqlite3.connect\<close>
  gives every connection a private database of its own, empty at first and destroyed when
  the connection is closed. Each store function opens and closes its own connection, so at
  such a path it works on an empty database and leaves nothing behind.
\<close>

definition private_db :: "string \<Rightarrow> bool" where
  "private_db db_path = (db_path = '':memory:'' \<or> db_path = [])"

text \<open>
  In the three store functions \<^verbatim>\<open>conn\<close> is assigned inside the \<^verbatim>\<open>try\<close> and read in the
  \<^verbatim>\<open>finally\<close>. When \<^verbatim>\<open>sqlite3.connect\<close> raises, the \<^verbatim>\<open>except\<close> clause prints the error, and then
  \<^verbatim>\<open>if conn:\<close> in the \<^verbatim>\<open>finally\<close> raises \<^verbatim>\<open>UnboundLocalError\<close>, which replaces the return.
\<close>

definition get_current_version_from_db ::
    "string \<Rightarrow> string \<Rightarrow> string \<Rightarrow> world \<Rightarrow> (exn + string option) \<times> world" where
  "get_current_version_from_db g a db_path w =
     (if private_db db_path
      then (Inr (fetchone_version (create_table_if_not_exists None) (g, a)), w)
      else
       (case files w db_path of
          Unopenable e \<Rightarrow> (Inl (UnboundLocalError ''conn''), print (''Database error: '' @ e) w)
        | Unusable e \<Rightarrow> (Inr None, print (''Database error: '' @ e) w)
        | Usable t \<Rightarrow>
            (let rows = create_table_if_not_exists t
             in (Inr (fetchone_version rows (g, a)),
                 w\<lparr>files := (files w)(db_path := Usable (Some rows))\<rparr>))))"

definition update_current_version_in_db ::
    "string \<Rightarrow> string \<Rightarrow> string option \<Rightarrow> string \<Rightarrow> world \<Rightarrow> (exn + unit) \<times> world" where
  "update_current_version_in_db g a version db_path w =
     (if private_db db_path
      then (Inr (), w\<lparr>commits := commits w @ [(db_path, (g, a), version)]\<rparr>)
      else
       (case files w db_path of
          Unopenable e \<Rightarrow> (Inl (UnboundLocalError ''conn''), print (''Database error: '' @ e) w)
        | Unusable e \<Rightarrow> (Inr (), print (''Database error: '' @ e) w)
        | Usable t \<Rightarrow>
            (let rows = replace_into (create_table_if_not_exists t) (g, a) version
             in (Inr (),
                 w\<lparr>files := (files w)(db_path := Usable (Some rows)),
                   commits := commits w @ [(db_path, (g, a), version)]\<rparr>))))"

text \<open>
  \<^verbatim>\<open>print_current_versions\<close> has no \<^verbatim>\<open>CREATE TABLE IF NOT EXISTS\<close>: on a file without the table
  its \<^verbatim>\<open>SELECT\<close> raises \<^verbatim>\<open>sqlite3.OperationalError\<close>, whose message is SQLite's
  \<^verbatim>\<open>no such table: versions\<close>.
\<close>

definition print_row :: "key \<times> string option \<Rightarrow> string" where
  "print_row r = ''- '' @ fst (fst r) @ '':'' @ snd (fst r) @ '' - '' @ fmt (snd r)"

definition print_current_versions :: "string \<Rightarrow> world \<Rightarrow> (exn + unit) \<times> world" where
  "print_current_versions db_path w =
     (if private_db db_path
      then (Inr (), print ''Database error: no such table: versions'' w)
      else
       (case files w db_path of
          Unopenable e \<Rightarrow> (Inl (UnboundLocalError ''conn''), print (''Database error: '' @ e) w)
        | Unusable e \<Rightarrow> (Inr (), print (''Database error: '' @ e) w)
        | Usable None \<Rightarrow> (Inr (), print ''Database error: no such table: versions'' w)
        | Usable (Some rows) \<Rightarrow>
            (Inr (),
             print ''''
               (if rows \<noteq> []
                then w\<lparr>stdout := stdout w @ ''Current Artifact Versions:'' # map print_row rows\<rparr>
                else print ''No artifact versions found in the database.'' w))))"

section \<open>Checking one artifact\<close>

definition check_for_new_version ::
    "remote \<Rightarrow> string \<Rightarrow> string \<Rightarrow> world \<Rightarrow> (exn + string option) \<times> world" where
  "check_for_new_version remote g a w =
     (case get_current_version_from_db g a default_db_path w of
        (Inl e, w1) \<Rightarrow> (Inl e, w1)
      | (Inr current_version, w1) \<Rightarrow>
          (case get_latest_version remote g a w1 of
             (Inl e, w2) \<Rightarrow> (Inl e, w2)
           | (Inr latest_version, w2) \<Rightarrow>
               (Inr (if truthy latest_version \<and> truthy current_version
                        \<and> latest_version \<noteq> current_version
                     then latest_version
                     else if truthy latest_version \<and> current_version = None
                     then latest_version
                     else None),
                w2)))"

section \<open>The notification channel\<close>

text \<open>
  \<^verbatim>\<open>send_email\<close> hands the message to SES, which answers with a message id (\<open>Inr\<close>) or raises
  (\<open>Inl\<close>, the text of the exception). The exception is caught and printed.
\<close>

definition send_email ::
    "(email \<Rightarrow> string + string) \<Rightarrow> string \<Rightarrow> string \<Rightarrow> string \<Rightarrow> string \<Rightarrow> world \<Rightarrow> world" where
  "send_email ses sender_email receiver_email subject body w =
     (let m = \<lparr>Source = sender_email, ToAddress = receiver_email,
                Subject = subject, Body = body\<rparr>
      in case ses m of
           Inr message_id \<Rightarrow>
             print (''Email notification sent successfully. Message ID: '' @ message_id)
               (w\<lparr>outbox := outbox w @ [m]\<rparr>)
         | Inl e \<Rightarrow> print (''Error sending email: '' @ e) w)"

section \<open>The batch driver\<close>

definition load_artifacts_from_json :: "artifacts_json \<Rightarrow> world \<Rightarrow> artifact list \<times> world" where
  "load_artifacts_from_json f w =
     (case f of
        Loaded artifacts \<Rightarrow> (artifacts, w)
      | FileNotFound \<Rightarrow> ([], print ''Error: artifacts.json not found.'' w)
      | JSONDecodeError \<Rightarrow> ([], print ''Error: Invalid JSON in artifacts.json.'' w))"

definition headline_new :: "string \<Rightarrow> string \<Rightarrow> string option \<Rightarrow> string" where
  "headline_new g a new_version =
     ''- New version available for '' @ g @ '':'' @ a @ '': '' @ fmt new_version"

definition headline_none :: "string \<Rightarrow> string \<Rightarrow> string" where
  "headline_none g a = ''- No new version available for '' @ g @ '':'' @ a @ ''.''"

definition subject_of :: "string \<Rightarrow> string \<Rightarrow> string" where
  "subject_of g a = ''New Maven Artifact Version: '' @ g @ '':'' @ a"

definition body_of :: "string \<Rightarrow> string \<Rightarrow> string option \<Rightarrow> string option \<Rightarrow> string" where
  "body_of g a new_version previous =
     ''A new version ('' @ fmt new_version @ '') of '' @ g @ '':'' @ a @ '' is available.''
       @ [CHR 0x0A] @ ''Previous version: '' @ fmt previous"

definition first_added :: "string \<Rightarrow> string \<Rightarrow> string option \<Rightarrow> string" where
  "first_added g a first_version =
     ''- First version added to database for '' @ g @ '':'' @ a @ '': '' @ fmt first_version"

text \<open>
  Lines 164 to 189 of \<^verbatim>\<open>main\<close>, the body of the loop for an entry with both fields. The call of
  \<^verbatim>\<open>send_email\<close> is commented out in the source: subject and body are printed. The body is
  built after \<^verbatim>\<open>update_current_version_in_db\<close>, and it is then that it reads the version it
  calls the previous one.
\<close>

definition reconcile :: "remote \<Rightarrow> string \<Rightarrow> string \<Rightarrow> world \<Rightarrow> (exn + unit) \<times> world" where
  "reconcile remote g a w =
     (case check_for_new_version remote g a w of
        (Inl e, w1) \<Rightarrow> (Inl e, w1)
      | (Inr new_version, w1) \<Rightarrow>
          if truthy new_version then
            (case update_current_version_in_db g a new_version default_db_path
                    (print (headline_new g a new_version) w1) of
               (Inl e, w2) \<Rightarrow> (Inl e, w2)
             | (Inr u, w2) \<Rightarrow>
                 (case get_current_version_from_db g a default_db_path w2 of
                    (Inl e, w3) \<Rightarrow> (Inl e, w3)
                  | (Inr previous, w3) \<Rightarrow>
                      (Inr (),
                       print (body_of g a new_version previous) (print (subject_of g a) w3))))
          else
            (case get_current_version_from_db g a default_db_path
                    (print (headline_none g a) w1) of
               (Inl e, w2) \<Rightarrow> (Inl e, w2)
             | (Inr current_version, w2) \<Rightarrow>
                 if current_version = None then
                   (case get_latest_version remote g a w2 of
                      (Inl e, w3) \<Rightarrow> (Inl e, w3)
                    | (Inr first_version, w3) \<Rightarrow>
                        (case update_current_version_in_db g a first_version default_db_path w3 of
                           (Inl e, w4) \<Rightarrow> (Inl e, w4)
                         | (Inr u, w4) \<Rightarrow> (Inr (), print (first_added g a first_version) w4)))
                 else (Inr (), w2)))"

text \<open>
  Lines 157 to 162: an entry whose group or name is missing (\<^verbatim>\<open>None\<close>) or empty is skipped
  with a warning.
\<close>

definition missing_warning :: string where
  "missing_warning = ''Warning: Missing group_id or artifact_id in JSON.''"

definition process_artifact :: "remote \<Rightarrow> artifact \<Rightarrow> world \<Rightarrow> (exn + unit) \<times> world" where
  "process_artifact remote art w =
     (case group_id art of
        None \<Rightarrow> (Inr (), print missing_warning w)
      | Some g \<Rightarrow>
          (case artifact_id art of
             None \<Rightarrow> (Inr (), print missing_warning w)
           | Some a \<Rightarrow>
               if g = [] \<or> a = []
               then (Inr (), print missing_warning w)
               else reconcile remote g a w))"

text \<open>The \<^verbatim>\<open>for\<close> loop of \<^verbatim>\<open>main\<close>: an exception out of one entry ends the loop.\<close>

fun main_loop :: "remote \<Rightarrow> artifact list \<Rightarrow> world \<Rightarrow> (exn + unit) \<times> world" where
  "main_loop remote [] w = (Inr (), w)"
| "main_loop remote (art # arts) w =
     (case process_artifact remote art w of
        (Inl e, w1) \<Rightarrow> (Inl e, w1)
      | (Inr u, w1) \<Rightarrow> main_loop remote arts w1)"

text \<open>
  \<^verbatim>\<open>main\<close>. The function \<^verbatim>\<open>load_email_settings\<close> it calls is not defined in the module; what it
  returns is the parameter \<open>email_settings\<close> (\<^verbatim>\<open>None\<close> or a dictionary), of which \<^verbatim>\<open>main\<close> only
  tests the truth value.
\<close>

definition main ::
    "remote \<Rightarrow> artifacts_json \<Rightarrow> (string \<times> string) list option \<Rightarrow> world \<Rightarrow> (exn + unit) \<times> world" where
  "main remote artifacts_file email_settings w =
     (case print_current_versions default_db_path w of
        (Inl e, w1) \<Rightarrow> (Inl e, w1)
      | (Inr u, w1) \<Rightarrow>
          (case load_artifacts_from_json artifacts_file w1 of
             (artifacts, w2) \<Rightarrow>
               if email_settings = None \<or> email_settings = Some []
               then (Inr (), print ''Error: Email settings not found. Exiting.'' w2)
               else main_loop remote artifacts (print ''New Versions:'' w2)))"

section \<open>Observations and scenarios\<close>

text \<open>
  What \<^verbatim>\<open>get_latest_version\<close> returns for a response and what it prints for it, read off its
  branches, and whether it returns at all.
\<close>

definition resolved :: "response \<Rightarrow> string option" where
  "resolved r = (case r of LatestText t \<Rightarrow> t | _ \<Rightarrow> None)"

definition reported :: "response \<Rightarrow> string list" where
  "reported r =
     (case r of
        RequestException e \<Rightarrow> [''Error fetching metadata: '' @ e]
      | ParseError e \<Rightarrow> [''Error parsing metadata: '' @ e]
      | LatestText t \<Rightarrow> []
      | OtherException e \<Rightarrow> [])"

definition caught :: "response \<Rightarrow> bool" where
  "caught r = (case r of OtherException e \<Rightarrow> False | _ \<Rightarrow> True)"

text \<open>
  The test of \<^verbatim>\<open>check_for_new_version\<close> (lines 80 and 82) as one predicate: the latest version
  is returned as new when it is truthy and the current one is \<^verbatim>\<open>None\<close>, or truthy and different.
\<close>

definition is_new :: "string option \<Rightarrow> string option \<Rightarrow> bool" where
  "is_new latest cur = (truthy latest \<and> (cur = None \<or> truthy cur \<and> latest \<noteq> cur))"

text \<open>
  A line is a headline for an artifact when it is the line \<^verbatim>\<open>No new version available\<close> for
  it, or starts as the line \<^verbatim>\<open>New version available\<close> for it does, up to the version.
\<close>

definition is_headline :: "string \<Rightarrow> string \<Rightarrow> string \<Rightarrow> bool" where
  "is_headline g a l =
     (l = headline_none g a \<or>
      prefix (''- New version available for '' @ g @ '':'' @ a @ '': '') l)"

text \<open>
  The rows a database path holds, and the record kept for a key in the default database:
  \<open>None\<close> when there is no row, \<open>Some None\<close> for a row whose version is NULL.
\<close>

definition table_of :: "db_file \<Rightarrow> table" where
  "table_of d = (case d of Usable (Some rows) \<Rightarrow> rows | _ \<Rightarrow> [])"

definition record_of :: "world \<Rightarrow> key \<Rightarrow> string option option" where
  "record_of w k = map_of (table_of (files w default_db_path)) k"

text \<open>No row of the database holds the empty string as its version.\<close>

definition no_empty_version :: "db_file \<Rightarrow> bool" where
  "no_empty_version d = list_all (\<lambda>r. snd r \<noteq> Some []) (table_of d)"

text \<open>A path that \<^verbatim>\<open>sqlite3.connect\<close> can open.\<close>

definition opens :: "db_file \<Rightarrow> bool" where
  "opens d = (case d of Unopenable e \<Rightarrow> False | _ \<Rightarrow> True)"

text \<open>
  A catalog entry with both fields; a world at the start of a run, where the default
  database is \<open>d\<close> and no other database file exists; a repository that answers every request
  alike; and the world after the scenario of the specification has run once.
\<close>

definition entry :: "string \<Rightarrow> string \<Rightarrow> artifact" where
  "entry g a = \<lparr>group_id = Some g, artifact_id = Some a\<rparr>"

definition world_with :: "db_file \<Rightarrow> world" where
  "world_with d =
     \<lparr>files = (\<lambda>p. Usable None)(default_db_path := d),
      stdout = [], requests = [], commits = [], outbox = []\<rparr>"

definition always :: "response \<Rightarrow> remote" where
  "always r = (\<lambda>n url. r)"

definition seen_once :: world where
  "seen_once =
     snd (process_artifact (always (LatestText (Some ''3.1.0''))) (entry ''org.example'' ''lib'')
            (world_with (Usable None)))"

text \<open>A repository where only the artifact \<^verbatim>\<open>org.example:second\<close> cannot be fetched.\<close>

definition second_down :: remote where
  "second_down =
     (\<lambda>n url. if url = metadata_url ''org.example'' ''second''
               then RequestException ''timeout'' else LatestText (Some ''1.0''))"

section \<open>The operations on a usable store\<close>

lemmas run_defs =
  process_artifact_def reconcile_def check_for_new_version_def main_loop.simps main_def
  get_current_version_from_db_def update_current_version_in_db_def print_current_versions_def
  load_artifacts_from_json_def missing_warning_def private_db_def
  get_latest_version_def metadata_url_def print_def truthy_def fmt_def
  create_table_if_not_exists_def fetchone_version_def replace_into_def default_db_path_def
  headline_new_def headline_none_def subject_of_def body_of_def first_added_def
  entry_def world_with_def always_def record_of_def table_of_def print_row_def second_down_def

lemma truthy_Some: "truthy (Some v) = (v \<noteq> [])"
  by (simp add: truthy_def)

lemma resolved_LatestText: "resolved (LatestText t) = t"
  by (simp add: resolved_def)

lemma reported_LatestText: "reported (LatestText t) = []"
  by (simp add: reported_def)

lemma caught_LatestText: "caught (LatestText t)"
  by (simp add: caught_def)

lemma truthy_resolved_caught: "truthy (resolved r) \<Longrightarrow> caught r"
  by (cases r) (simp_all add: resolved_def truthy_def caught_def)

lemma create_table_Some: "create_table_if_not_exists (Some rows) = rows"
  by (simp add: create_table_if_not_exists_def)

lemma default_not_private: "\<not> private_db default_db_path"
  by (simp add: private_db_def default_db_path_def)

lemma get_latest_version_eq:
  "caught (remote (length (requests w)) (metadata_url g a)) \<Longrightarrow>
   get_latest_version remote g a w =
     (Inr (resolved (remote (length (requests w)) (metadata_url g a))),
      w\<lparr>requests := requests w @ [metadata_url g a],
        stdout := stdout w @ reported (remote (length (requests w)) (metadata_url g a))\<rparr>)"
  by (simp add: get_latest_version_def resolved_def reported_def caught_def print_def Let_def
      split: response.splits)

lemma get_latest_version_escapes:
  "remote (length (requests w)) (metadata_url g a) = OtherException e \<Longrightarrow>
   get_latest_version remote g a w =
     (Inl (Uncaught e), w\<lparr>requests := requests w @ [metadata_url g a]\<rparr>)"
  by (simp add: get_latest_version_def Let_def)

lemma get_usable:
  "\<not> private_db p \<Longrightarrow> files w p = Usable t \<Longrightarrow>
   get_current_version_from_db g a p w =
     (Inr (fetchone_version (create_table_if_not_exists t) (g, a)),
      w\<lparr>files := (files w)(p := Usable (Some (create_table_if_not_exists t)))\<rparr>)"
  by (simp add: get_current_version_from_db_def Let_def)

lemma update_usable:
  "\<not> private_db p \<Longrightarrow> files w p = Usable t \<Longrightarrow>
   update_current_version_in_db g a v p w =
     (Inr (),
      w\<lparr>files := (files w)(p := Usable (Some (replace_into (create_table_if_not_exists t) (g, a) v))),
        commits := commits w @ [(p, (g, a), v)]\<rparr>)"
  by (simp add: update_current_version_in_db_def Let_def)

lemma map_of_filter_other: "map_of (filter (\<lambda>r. fst r \<noteq> k) rows) k = None"
  by (induction rows) auto

lemma filter_filter_other: "filter (\<lambda>r. fst r = k) (filter (\<lambda>r. fst r \<noteq> k) rows) = []"
  by (induction rows) auto

lemma map_of_replace_into_same: "map_of (replace_into rows k v) k = Some v"
  by (simp add: replace_into_def map_add_def map_of_filter_other)

lemma fetchone_replace_into_same: "fetchone_version (replace_into rows k v) k = v"
  by (simp add: fetchone_version_def map_of_replace_into_same)

lemma check_usable:
  assumes "files w default_db_path = Usable t"
    and "caught (remote (length (requests w)) (metadata_url g a))"
  shows "check_for_new_version remote g a w =
     (let cur = fetchone_version (create_table_if_not_exists t) (g, a);
          r = remote (length (requests w)) (metadata_url g a)
      in (Inr (if truthy (resolved r) \<and> truthy cur \<and> resolved r \<noteq> cur then resolved r
               else if truthy (resolved r) \<and> cur = None then resolved r else None),
          w\<lparr>files := (files w)(default_db_path := Usable (Some (create_table_if_not_exists t))),
            requests := requests w @ [metadata_url g a],
            stdout := stdout w @ reported r\<rparr>))"
  using assms
  by (simp add: check_for_new_version_def get_usable default_not_private get_latest_version_eq
      Let_def)

text \<open>
  The ways through the loop body on a usable store. The version is new (stored, and subject
  and body printed); a version is stored and the latest is not new; nothing is stored and
  the first lookup gave nothing, where the lookup is made again and its result stored
  whatever it is; and a lookup, the first or the second, raises an exception that is not
  caught.
\<close>

lemma reconcile_new:
  assumes "files w default_db_path = Usable t"
    and "cur = fetchone_version (create_table_if_not_exists t) (g, a)"
    and "r = remote (length (requests w)) (metadata_url g a)"
    and "truthy (resolved r)" and "cur = None \<or> truthy cur \<and> resolved r \<noteq> cur"
  shows "reconcile remote g a w =
     (Inr (),
      w\<lparr>files := (files w)(default_db_path :=
            Usable (Some (replace_into (create_table_if_not_exists t) (g, a) (resolved r)))),
        requests := requests w @ [metadata_url g a],
        commits := commits w @ [(default_db_path, (g, a), resolved r)],
        stdout := stdout w @ reported r @
          [headline_new g a (resolved r), subject_of g a, body_of g a (resolved r) (resolved r)]\<rparr>)"
  using assms truthy_resolved_caught [of r]
  by (auto simp add: reconcile_def check_usable Let_def update_usable get_usable print_def
      fetchone_replace_into_same create_table_Some default_not_private)

lemma reconcile_same:
  assumes "files w default_db_path = Usable t"
    and "cur = fetchone_version (create_table_if_not_exists t) (g, a)"
    and "r = remote (length (requests w)) (metadata_url g a)"
    and "caught r"
    and "cur \<noteq> None" and "\<not> (truthy (resolved r) \<and> truthy cur \<and> resolved r \<noteq> cur)"
  shows "reconcile remote g a w =
     (Inr (),
      w\<lparr>files := (files w)(default_db_path := Usable (Some (create_table_if_not_exists t))),
        requests := requests w @ [metadata_url g a],
        stdout := stdout w @ reported r @ [headline_none g a]\<rparr>)"
  using assms
  by (auto simp add: reconcile_def check_usable Let_def update_usable get_usable print_def
      fetchone_replace_into_same create_table_Some truthy_def default_not_private)

lemma reconcile_retry:
  assumes "files w default_db_path = Usable t"
    and "fetchone_version (create_table_if_not_exists t) (g, a) = None"
    and "r = remote (length (requests w)) (metadata_url g a)"
    and "r2 = remote (Suc (length (requests w))) (metadata_url g a)"
    and "caught r" and "caught r2"
    and "\<not> truthy (resolved r)"
  shows "reconcile remote g a w =
     (Inr (),
      w\<lparr>files := (files w)(default_db_path :=
            Usable (Some (replace_into (create_table_if_not_exists t) (g, a) (resolved r2)))),
        requests := requests w @ [metadata_url g a, metadata_url g a],
        commits := commits w @ [(default_db_path, (g, a), resolved r2)],
        stdout := stdout w @ reported r @ [headline_none g a] @ reported r2
                    @ [first_added g a (resolved r2)]\<rparr>)"
  using assms
  by (auto simp add: reconcile_def check_usable Let_def update_usable get_usable print_def
      fetchone_replace_into_same create_table_Some truthy_def get_latest_version_eq
      default_not_private)

lemma reconcile_escapes:
  assumes "files w default_db_path = Usable t"
    and "remote (length (requests w)) (metadata_url g a) = OtherException e"
  shows "reconcile remote g a w =
     (Inl (Uncaught e),
      w\<lparr>files := (files w)(default_db_path := Usable (Some (create_table_if_not_exists t))),
        requests := requests w @ [metadata_url g a]\<rparr>)"
  using assms
  by (simp add: reconcile_def check_for_new_version_def get_usable default_not_private
      get_latest_version_escapes)

lemma reconcile_retry_escapes:
  assumes "files w default_db_path = Usable t"
    and "fetchone_version (create_table_if_not_exists t) (g, a) = None"
    and "r = remote (length (requests w)) (metadata_url g a)"
    and "remote (Suc (length (requests w))) (metadata_url g a) = OtherException e"
    and "caught r"
    and "\<not> truthy (resolved r)"
  shows "reconcile remote g a w =
     (Inl (Uncaught e),
      w\<lparr>files := (files w)(default_db_path := Usable (Some (create_table_if_not_exists t))),
        requests := requests w @ [metadata_url g a, metadata_url g a],
        stdout := stdout w @ reported r @ [headline_none g a]\<rparr>)"
  using assms
  by (auto simp add: reconcile_def check_usable Let_def get_usable print_def
      create_table_Some truthy_def get_latest_version_escapes default_not_private)

lemma process_entry:
  "g \<noteq> [] \<Longrightarrow> a \<noteq> [] \<Longrightarrow> process_artifact remote (entry g a) w = reconcile remote g a w"
  by (simp add: process_artifact_def entry_def)

lemma reconcile_outbox: "outbox (snd (reconcile remote g a w)) = outbox w"
  by (simp add: reconcile_def check_for_new_version_def get_current_version_from_db_def
      update_current_version_in_db_def get_latest_version_def print_def Let_def
      split: db_file.splits response.splits prod.splits sum.splits)

lemma subject_not_reported: "subject_of g a \<notin> set (reported r)"
  by (cases r) (simp_all add: subject_of_def reported_def)

lemma subject_not_headline_none: "subject_of g a \<noteq> headline_none g' a'"
  by (simp add: subject_of_def headline_none_def)

lemma subject_not_first_added: "subject_of g a \<noteq> first_added g' a' v"
  by (simp add: subject_of_def first_added_def)

section \<open>Headlines among the printed lines\<close>

lemma is_headline_none: "is_headline g a (headline_none g a)"
  by (simp add: is_headline_def)

lemma is_headline_new: "is_headline g a (headline_new g a v)"
  by (simp add: is_headline_def headline_new_def)

lemma not_headline_subject: "\<not> is_headline g a (subject_of g' a')"
  by (simp add: is_headline_def subject_of_def headline_none_def)

lemma not_headline_body: "\<not> is_headline g a (body_of g' a' v p)"
  by (simp add: is_headline_def body_of_def headline_none_def)

lemma not_headline_first_added: "\<not> is_headline g a (first_added g' a' v)"
  by (simp add: is_headline_def first_added_def headline_none_def)

lemma not_headline_reported: "filter (is_headline g a) (reported r) = []"
  by (cases r) (simp_all add: is_headline_def reported_def headline_none_def)

section \<open>Containment of failures\<close>

text \<open>
  As long as the default database can be opened and every lookup ends in a version or in an
  exception that \<^verbatim>\<open>get_latest_version\<close> catches, nothing raises out of the loop body, so the
  loop runs to its end.
\<close>

lemma reconcile_returns:
  assumes "opens (files w default_db_path)" and "\<forall>n url. caught (remote n url)"
  shows "fst (reconcile remote g a w) = Inr () \<and>
         opens (files (snd (reconcile remote g a w)) default_db_path)"
proof -
  have l: "get_latest_version remote g a w' =
     (Inr (resolved (remote (length (requests w')) (metadata_url g a))),
      w'\<lparr>requests := requests w' @ [metadata_url g a],
        stdout := stdout w' @ reported (remote (length (requests w')) (metadata_url g a))\<rparr>)"
    for w'
    using assms(2) by (simp add: get_latest_version_eq)
  show ?thesis
    using assms(1)
    by (cases "files w default_db_path")
       (simp_all add: opens_def reconcile_def check_for_new_version_def
          get_current_version_from_db_def update_current_version_in_db_def l
          print_def Let_def default_not_private)
qed

lemma process_artifact_returns:
  assumes "opens (files w default_db_path)" and "\<forall>n url. caught (remote n url)"
  shows "fst (process_artifact remote art w) = Inr () \<and>
         opens (files (snd (process_artifact remote art w)) default_db_path)"
  using assms(1) reconcile_returns [OF assms]
  by (simp add: process_artifact_def print_def split: option.splits)

lemma main_loop_returns:
  "opens (files w default_db_path) \<Longrightarrow> \<forall>n url. caught (remote n url) \<Longrightarrow>
   fst (main_loop remote arts w) = Inr ()"
proof (induction arts arbitrary: w)
  case Nil
  then show ?case by simp
next
  case (Cons art arts)
  from process_artifact_returns [OF Cons.prems, of art]
  obtain w1 where "process_artifact remote art w = (Inr (), w1)"
    and "opens (files w1 default_db_path)"
    by (cases "process_artifact remote art w") auto
  then show ?case
    using Cons.IH [of w1] Cons.prems(2) by simp
qed

text \<open>
  A batch of three on a usable store where the lookup of the second artifact fails and the
  second has a stored version: the first and the third are stored, the record of the second
  is as before.
\<close>

lemma batch_of_three_isolated:
  "commits (snd (main_loop second_down
      [entry ''org.example'' ''first'', entry ''org.example'' ''second'',
       entry ''org.example'' ''third'']
      (world_with (Usable (Some [((''org.example'', ''second''), Some ''2.0'')]))))) =
     [(default_db_path, (''org.example'', ''first''), Some ''1.0''),
      (default_db_path, (''org.example'', ''third''), Some ''1.0'')] \<and>
   record_of (snd (main_loop second_down
      [entry ''org.example'' ''first'', entry ''org.example'' ''second'',
       entry ''org.example'' ''third'']
      (world_with (Usable (Some [((''org.example'', ''second''), Some ''2.0'')])))))
     (''org.example'', ''second'') = Some (Some ''2.0'')"
  by (simp add: run_defs)

section \<open>No empty version is ever stored\<close>

text \<open>
  The text of the \<^verbatim>\<open>latest\<close> element is \<^verbatim>\<open>None\<close> or a non-empty string, and the program stores
  nothing but what a lookup returned. So a database that starts without a row whose version
  is the empty string, as a new one does, never gets one: the loop keeps this, whatever the
  lookups give and however they fail.
\<close>

lemma no_empty_fresh: "no_empty_version (Usable None)"
  by (simp add: no_empty_version_def table_of_def)

lemma no_empty_fetchone:
  assumes "no_empty_version (Usable t)"
  shows "fetchone_version (create_table_if_not_exists t) k \<noteq> Some []"
proof
  assume "fetchone_version (create_table_if_not_exists t) k = Some []"
  then have "map_of (create_table_if_not_exists t) k = Some (Some [])"
    by (simp add: fetchone_version_def split: option.splits)
  then have "(k, Some []) \<in> set (create_table_if_not_exists t)"
    by (rule map_of_SomeD)
  then have "(k, Some []) \<in> set (table_of (Usable t))"
    by (cases t) (simp_all add: create_table_if_not_exists_def table_of_def)
  with assms show False
    by (auto simp: no_empty_version_def list_all_iff)
qed

lemma no_empty_created:
  "no_empty_version (Usable t) \<Longrightarrow> no_empty_version (Usable (Some (create_table_if_not_exists t)))"
  by (cases t) (simp_all add: no_empty_version_def table_of_def create_table_if_not_exists_def)

lemma no_empty_replace_into:
  "no_empty_version (Usable t) \<Longrightarrow> v \<noteq> Some [] \<Longrightarrow>
   no_empty_version (Usable (Some (replace_into (create_table_if_not_exists t) k v)))"
  by (cases t)
     (simp_all add: no_empty_version_def table_of_def create_table_if_not_exists_def
        replace_into_def list_all_iff)

lemma resolved_not_empty:
  "\<forall>n url. remote n url \<noteq> LatestText (Some []) \<Longrightarrow> resolved (remote n url) \<noteq> Some []"
  by (cases "remote n url") (auto simp: resolved_def)

lemma get_no_empty:
  "no_empty_version (files w p) \<Longrightarrow>
   no_empty_version (files (snd (get_current_version_from_db g a p' w)) p)"
  by (cases "files w p'")
     (auto simp: get_current_version_from_db_def print_def Let_def no_empty_created)

lemma update_no_empty:
  "no_empty_version (files w p) \<Longrightarrow> v \<noteq> Some [] \<Longrightarrow>
   no_empty_version (files (snd (update_current_version_in_db g a v p' w)) p)"
  by (cases "files w p'")
     (auto simp: update_current_version_in_db_def print_def Let_def no_empty_replace_into)

lemma get_latest_version_files:
  "files (snd (get_latest_version remote g a w)) = files w"
  by (simp add: get_latest_version_def Let_def print_def split: response.splits)

lemma get_latest_version_not_empty:
  "\<forall>n url. remote n url \<noteq> LatestText (Some []) \<Longrightarrow>
   fst (get_latest_version remote g a w) \<noteq> Inr (Some [])"
  by (cases "remote (length (requests w)) (metadata_url g a)")
     (auto simp: get_latest_version_def Let_def)

lemma check_no_empty:
  assumes "no_empty_version (files w p)"
  shows "no_empty_version (files (snd (check_for_new_version remote g a w)) p)"
proof -
  obtain r1 w1 where g1: "get_current_version_from_db g a default_db_path w = (r1, w1)"
    by (cases "get_current_version_from_db g a default_db_path w")
  have "no_empty_version (files w1 p)"
    using get_no_empty [OF assms, of g a default_db_path] g1 by simp
  then show ?thesis
    using g1 get_latest_version_files [of remote g a w1]
    by (cases "get_latest_version remote g a w1")
       (auto simp: check_for_new_version_def split: sum.splits)
qed

lemma check_not_empty:
  assumes "\<forall>n url. remote n url \<noteq> LatestText (Some [])"
  shows "fst (check_for_new_version remote g a w) \<noteq> Inr (Some [])"
proof -
  obtain r1 w1 where g1: "get_current_version_from_db g a default_db_path w = (r1, w1)"
    by (cases "get_current_version_from_db g a default_db_path w")
  show ?thesis
    using g1 get_latest_version_not_empty [OF assms, of g a w1]
    by (cases "get_latest_version remote g a w1")
       (auto simp: check_for_new_version_def split: sum.splits)
qed

lemma reconcile_no_empty:
  assumes "no_empty_version (files w default_db_path)"
    and "\<forall>n url. remote n url \<noteq> LatestText (Some [])"
  shows "no_empty_version (files (snd (reconcile remote g a w)) default_db_path)"
proof -
  let ?p = default_db_path
  obtain c w1 where c: "check_for_new_version remote g a w = (c, w1)"
    by (cases "check_for_new_version remote g a w")
  have w1: "no_empty_version (files w1 ?p)"
    using check_no_empty [OF assms(1), of remote g a] c by simp
  show ?thesis
  proof (cases c)
    case (Inl e)
    then show ?thesis using c w1 by (simp add: reconcile_def)
  next
    case (Inr nv)
    have nv: "nv \<noteq> Some []"
      using check_not_empty [OF assms(2), of g a w] c Inr by simp
    show ?thesis
    proof (cases "truthy nv")
      case True
      let ?w2 = "print (headline_new g a nv) w1"
      have "no_empty_version (files ?w2 ?p)"
        using w1 by (simp add: print_def)
      from update_no_empty [OF this nv, of g a ?p]
      obtain u w3 where u: "update_current_version_in_db g a nv ?p ?w2 = (u, w3)"
        and w3: "no_empty_version (files w3 ?p)"
        by (cases "update_current_version_in_db g a nv ?p ?w2") auto
      obtain q w4 where q: "get_current_version_from_db g a ?p w3 = (q, w4)"
        by (cases "get_current_version_from_db g a ?p w3")
      have "no_empty_version (files w4 ?p)"
        using get_no_empty [OF w3, of g a ?p] q by simp
      then show ?thesis
        using c Inr True u w3 q
        by (auto simp: reconcile_def print_def split: sum.splits)
    next
      case False
      let ?w2 = "print (headline_none g a) w1"
      have w2: "no_empty_version (files ?w2 ?p)"
        using w1 by (simp add: print_def)
      obtain q w3 where q: "get_current_version_from_db g a ?p ?w2 = (q, w3)"
        by (cases "get_current_version_from_db g a ?p ?w2")
      have w3: "no_empty_version (files w3 ?p)"
        using get_no_empty [OF w2, of g a ?p] q by simp
      obtain f w4 where f: "get_latest_version remote g a w3 = (f, w4)"
        by (cases "get_latest_version remote g a w3")
      have w4: "no_empty_version (files w4 ?p)"
        using get_latest_version_files [of remote g a w3] f w3 by simp
      have fne: "f \<noteq> Inr (Some [])"
        using get_latest_version_not_empty [OF assms(2), of g a w3] f by simp
      have "no_empty_version (files (snd (update_current_version_in_db g a fv ?p w4)) ?p)"
        if "f = Inr fv" for fv
        using that fne by (intro update_no_empty [OF w4]) auto
      then show ?thesis
        using c Inr False q w3 f w4
        by (auto simp: reconcile_def print_def split: sum.splits prod.splits)
    qed
  qed
qed

lemma process_artifact_no_empty:
  assumes "no_empty_version (files w default_db_path)"
    and "\<forall>n url. remote n url \<noteq> LatestText (Some [])"
  shows "no_empty_version (files (snd (process_artifact remote art w)) default_db_path)"
  using assms(1) reconcile_no_empty [OF assms]
  by (simp add: process_artifact_def print_def split: option.splits)

lemma main_loop_no_empty:
  "no_empty_version (files w default_db_path) \<Longrightarrow>
   \<forall>n url. remote n url \<noteq> LatestText (Some []) \<Longrightarrow>
   no_empty_version (files (snd (main_loop remote arts w)) default_db_path)"
proof (induction arts arbitrary: w)
  case Nil
  then show ?case by simp
next
  case (Cons art arts)
  obtain r w1 where p: "process_artifact remote art w = (r, w1)"
    by (cases "process_artifact remote art w")
  have "no_empty_version (files w1 default_db_path)"
    using process_artifact_no_empty [OF Cons.prems, of art] p by simp
  then show ?case
    using p Cons.IH [of w1] Cons.prems(2) by (cases r) simp_all
qed

section \<open>The claims\<close>

subsection \<open>C1: a failed lookup and the store\<close>

text \<open>
  Claim C1 says that processing an artifact whose lookup fails leaves the store as it was,
  also when no record existed before. The code keeps a stored version, but where no record
  exists the branch after \<^verbatim>\<open>No new version available\<close> looks the version up again and stores
  the result unchecked. With an empty table and a repository that times out on every
  request, the key \<^verbatim>\<open>org.example:lib\<close> has no record before the run and a record with a NULL
  version after it, written by one \<^verbatim>\<open>REPLACE\<close>.
\<close>

theorem failed_resolution_inserts_null_row:
  "record_of (world_with (Usable (Some []))) (''org.example'', ''lib'') = None \<and>
   record_of
     (snd (process_artifact (always (RequestException ''timeout'')) (entry ''org.example'' ''lib'')
             (world_with (Usable (Some [])))))
     (''org.example'', ''lib'') = Some None \<and>
   commits
     (snd (process_artifact (always (RequestException ''timeout'')) (entry ''org.example'' ''lib'')
             (world_with (Usable (Some []))))) =
     [(default_db_path, (''org.example'', ''lib''), None)]"
  by (simp add: run_defs)

subsection \<open>C2: the store follows a successful lookup\<close>

text \<open>
  Claim C2. On a usable default database, for an entry with a non-empty group and name whose
  lookup gives a version \<open>v\<close> (the text of the \<^verbatim>\<open>latest\<close> element, a non-empty string):
  processing the entry returns normally, and afterwards the store has a record for the key
  with version \<open>v\<close>, which is what \<^verbatim>\<open>get_current_version_from_db\<close> then returns. This holds
  whether no version was stored before (no row or a NULL version: first seen), another one
  (upgraded) or \<open>v\<close> itself (unchanged). The stored version is one the program can have
  stored, so not the empty string: \<open>no_empty_fresh\<close>, \<open>main_loop_no_empty\<close> and
  \<open>no_empty_fetchone\<close> show that no run of the loop on a new database leads to such a row.
\<close>

theorem store_reflects_resolved_version:
  assumes "files w default_db_path = Usable t"
    and "g \<noteq> []" and "a \<noteq> []"
    and "remote (length (requests w)) (metadata_url g a) = LatestText (Some v)"
    and "v \<noteq> []"
    and "fetchone_version (create_table_if_not_exists t) (g, a) \<noteq> Some []"
  shows "fst (process_artifact remote (entry g a) w) = Inr () \<and>
         record_of (snd (process_artifact remote (entry g a) w)) (g, a) = Some (Some v) \<and>
         fst (get_current_version_from_db g a default_db_path
                (snd (process_artifact remote (entry g a) w))) = Inr (Some v)"
proof (cases "fetchone_version (create_table_if_not_exists t) (g, a) = Some v")
  case True
  then have m: "map_of (create_table_if_not_exists t) (g, a) = Some (Some v)"
    by (simp add: fetchone_version_def split: option.splits)
  have "reconcile remote g a w =
     (Inr (),
      w\<lparr>files := (files w)(default_db_path := Usable (Some (create_table_if_not_exists t))),
        requests := requests w @ [metadata_url g a],
        stdout := stdout w @ reported (LatestText (Some v)) @ [headline_none g a]\<rparr>)"
    using assms True
    by (intro reconcile_same [where cur = "Some v"]) (simp_all add: resolved_LatestText caught_LatestText)
  then show ?thesis
    using assms m True
    by (simp add: process_entry record_of_def table_of_def get_usable default_not_private create_table_Some)
next
  case False
  let ?cur = "fetchone_version (create_table_if_not_exists t) (g, a)"
  let ?r = "LatestText (Some v)"
  have c: "?cur = None \<or> truthy ?cur \<and> resolved ?r \<noteq> ?cur"
    using False assms(6) by (cases ?cur) (auto simp: truthy_def resolved_LatestText caught_LatestText)
  have "reconcile remote g a w =
     (Inr (),
      w\<lparr>files := (files w)(default_db_path :=
            Usable (Some (replace_into (create_table_if_not_exists t) (g, a) (resolved ?r)))),
        requests := requests w @ [metadata_url g a],
        commits := commits w @ [(default_db_path, (g, a), resolved ?r)],
        stdout := stdout w @ reported ?r @
          [headline_new g a (resolved ?r), subject_of g a,
           body_of g a (resolved ?r) (resolved ?r)]\<rparr>)"
    using assms c
    by (intro reconcile_new [where cur = ?cur]) (simp_all add: resolved_LatestText truthy_Some caught_LatestText)
  then show ?thesis
    using assms
    by (simp add: process_entry record_of_def table_of_def resolved_LatestText
        map_of_replace_into_same get_usable default_not_private create_table_Some fetchone_replace_into_same)
qed

theorem store_reflects_resolved_version_witness:
  "fst (process_artifact (always (LatestText (Some ''3.1.0''))) (entry ''org.example'' ''lib'')
          (world_with (Usable (Some [((''org.example'', ''lib''), Some ''3.0.0'')])))) = Inr () \<and>
   record_of
     (snd (process_artifact (always (LatestText (Some ''3.1.0''))) (entry ''org.example'' ''lib'')
             (world_with (Usable (Some [((''org.example'', ''lib''), Some ''3.0.0'')])))))
     (''org.example'', ''lib'') = Some (Some ''3.1.0'') \<and>
   fst (get_current_version_from_db ''org.example'' ''lib'' default_db_path
     (snd (process_artifact (always (LatestText (Some ''3.1.0''))) (entry ''org.example'' ''lib'')
             (world_with (Usable (Some [((''org.example'', ''lib''), Some ''3.0.0'')]))))))
     = Inr (Some ''3.1.0'')"
  by (rule store_reflects_resolved_version
        [where t = "Some [((''org.example'', ''lib''), Some ''3.0.0'')]"])
     (simp_all add: world_with_def always_def create_table_if_not_exists_def fetchone_version_def)

subsection \<open>C3: notifications\<close>

text \<open>
  Claim C3 says that a notification is dispatched to the notification channel for a first
  seen or upgraded artifact. In \<^verbatim>\<open>main\<close> the call of \<^verbatim>\<open>send_email\<close> is commented out, so nothing
  reaches the channel: in the scenario of the specification (empty store, the repository
  answers \<^verbatim>\<open>3.1.0\<close> for \<^verbatim>\<open>org.example:lib\<close>) no message is handed to SES, and the subject and
  the body are printed.
\<close>

theorem scenario_dispatches_nothing:
  "outbox (snd (main_loop (always (LatestText (Some ''3.1.0''))) [entry ''org.example'' ''lib'']
                  (world_with (Usable None)))) = [] \<and>
   stdout (snd (main_loop (always (LatestText (Some ''3.1.0''))) [entry ''org.example'' ''lib'']
                  (world_with (Usable None)))) =
     [''- New version available for org.example:lib: 3.1.0'',
      ''New Maven Artifact Version: org.example:lib'',
      ''A new version (3.1.0) of org.example:lib is available.'' @ [CHR 0x0A]
        @ ''Previous version: 3.1.0'']"
  by (simp add: run_defs)

text \<open>
  Claim C3, amended. On a usable default database, for an entry with a non-empty group and
  name, no message is sent, and:
  \<^item> when the lookup gives a non-empty version \<open>v\<close> and the stored version is absent or a
    non-empty string other than \<open>v\<close> (first seen, upgraded), the entry prints exactly the
    headline, one subject naming the artifact as \<^verbatim>\<open>group:name\<close> and one body that starts
    with \<^verbatim>\<open>A new version (v) of group:name is available.\<close>;
  \<^item> when the stored version equals the version found (unchanged) or the lookup gives
    nothing (failed), no subject line is printed.
\<close>

theorem notification_printed_not_sent:
  assumes "files w default_db_path = Usable t"
    and "g \<noteq> []" and "a \<noteq> []"
    and "cur = fetchone_version (create_table_if_not_exists t) (g, a)"
    and "r = remote (length (requests w)) (metadata_url g a)"
    and "w' = snd (process_artifact remote (entry g a) w)"
  shows "(r = LatestText (Some v) \<and> v \<noteq> [] \<and> cur \<noteq> Some v \<and> cur \<noteq> Some [] \<longrightarrow>
            (\<exists>p. stdout w' = stdout w @
               [headline_new g a (Some v), subject_of g a, body_of g a (Some v) p]))
       \<and> (r = LatestText (Some v) \<and> cur = Some v \<or> \<not> truthy (resolved r) \<longrightarrow>
            (\<exists>ls. stdout w' = stdout w @ ls \<and> subject_of g a \<notin> set ls))
       \<and> outbox w' = outbox w"
proof (intro conjI impI)
  assume h: "r = LatestText (Some v) \<and> v \<noteq> [] \<and> cur \<noteq> Some v \<and> cur \<noteq> Some []"
  then have c: "cur = None \<or> truthy cur \<and> resolved r \<noteq> cur"
    by (cases cur) (auto simp: truthy_def resolved_LatestText)
  have "truthy (resolved r)"
    using h by (simp add: resolved_LatestText truthy_Some)
  then have "stdout w' = stdout w @ reported r @
          [headline_new g a (resolved r), subject_of g a, body_of g a (resolved r) (resolved r)]"
    using assms c by (simp add: process_entry reconcile_new [where cur = cur and r = r])
  then show "\<exists>p. stdout w' = stdout w @
               [headline_new g a (Some v), subject_of g a, body_of g a (Some v) p]"
    using h by (auto simp: resolved_LatestText reported_LatestText)
next
  assume h: "r = LatestText (Some v) \<and> cur = Some v \<or> \<not> truthy (resolved r)"
  then have n: "\<not> (truthy (resolved r) \<and> truthy cur \<and> resolved r \<noteq> cur)"
    by (auto simp: resolved_LatestText)
  show "\<exists>ls. stdout w' = stdout w @ ls \<and> subject_of g a \<notin> set ls"
  proof (cases "caught r")
    case False
    then obtain e where "r = OtherException e"
      by (cases r) (simp_all add: caught_def)
    then have "stdout w' = stdout w"
      using assms by (simp add: process_entry reconcile_escapes [where e = e])
    then show ?thesis by simp
  next
    case caught: True
    show ?thesis
    proof (cases "cur = None")
      case False
      then have "stdout w' = stdout w @ reported r @ [headline_none g a]"
        using assms n caught
        by (simp add: process_entry reconcile_same [where cur = cur and r = r])
      then show ?thesis
        by (simp add: subject_not_reported subject_not_headline_none)
    next
      case True
      then have f: "\<not> truthy (resolved r)"
        using h by auto
      let ?r2 = "remote (Suc (length (requests w))) (metadata_url g a)"
      show ?thesis
      proof (cases "caught ?r2")
        case True
        have "stdout w' = stdout w @ reported r @ [headline_none g a] @ reported ?r2
                    @ [first_added g a (resolved ?r2)]"
          using assms \<open>cur = None\<close> f caught True
          by (simp add: process_entry reconcile_retry [where r = r and ?r2.0 = ?r2])
        then show ?thesis
          by (simp add: subject_not_reported subject_not_headline_none subject_not_first_added)
      next
        case False
        then obtain e where "?r2 = OtherException e"
          by (cases ?r2) (simp_all add: caught_def)
        then have "stdout w' = stdout w @ reported r @ [headline_none g a]"
          using assms \<open>cur = None\<close> f caught
          by (simp add: process_entry reconcile_retry_escapes [where r = r and e = e])
        then show ?thesis
          by (simp add: subject_not_reported subject_not_headline_none)
      qed
    qed
  qed
next
  show "outbox w' = outbox w"
    using assms by (simp add: process_entry reconcile_outbox)
qed

theorem notification_printed_not_sent_witness:
  "(\<exists>p. stdout (snd (process_artifact (always (LatestText (Some ''3.1.0'')))
                       (entry ''org.example'' ''lib'') (world_with (Usable None)))) =
     [headline_new ''org.example'' ''lib'' (Some ''3.1.0''), subject_of ''org.example'' ''lib'',
      body_of ''org.example'' ''lib'' (Some ''3.1.0'') p]) \<and>
   outbox (snd (process_artifact (always (LatestText (Some ''3.1.0'')))
                  (entry ''org.example'' ''lib'') (world_with (Usable None)))) = []"
  using notification_printed_not_sent
    [where w = "world_with (Usable None)" and t = None and g = "''org.example''" and a = "''lib''"
       and remote = "always (LatestText (Some ''3.1.0''))" and v = "''3.1.0''",
     OF _ _ _ refl refl refl]
  by (simp add: world_with_def always_def create_table_if_not_exists_def fetchone_version_def)

subsection \<open>C4: the previous version in the notification\<close>

text \<open>
  Claim C4 says that the previous version in the notification of an upgrade is the version
  stored before the run. The body is built after \<^verbatim>\<open>update_current_version_in_db\<close> and reads the
  store then: with \<^verbatim>\<open>3.0.0\<close> stored and \<^verbatim>\<open>3.1.0\<close> found, the line \<^verbatim>\<open>Previous version:\<close> of the body
  gives \<^verbatim>\<open>3.1.0\<close>, the new version.
\<close>

theorem previous_version_is_new_version:
  "stdout (snd (process_artifact (always (LatestText (Some ''3.1.0'')))
                  (entry ''org.example'' ''lib'')
                  (world_with (Usable (Some [((''org.example'', ''lib''), Some ''3.0.0'')]))))) =
     [''- New version available for org.example:lib: 3.1.0'',
      ''New Maven Artifact Version: org.example:lib'',
      ''A new version (3.1.0) of org.example:lib is available.'' @ [CHR 0x0A]
        @ ''Previous version: 3.1.0'']"
  by (simp add: run_defs)

subsection \<open>C5: what is reported for an artifact\<close>

text \<open>
  Claim C5 says that four outcomes are told apart in what is reported. The code has two
  headlines. With \<^verbatim>\<open>2.0\<close> stored: a lookup whose \<^verbatim>\<open>latest\<close> element has no text prints exactly
  what an unchanged version prints; a lookup that times out prints the resolver's error line
  and then the same headline as an unchanged version. And an artifact seen for the first
  time prints exactly what an upgrade from \<^verbatim>\<open>3.0.0\<close> prints.
\<close>

theorem reports_not_distinct:
  "stdout (snd (process_artifact (always (LatestText None)) (entry ''org.example'' ''lib'')
                  (world_with (Usable (Some [((''org.example'', ''lib''), Some ''2.0'')]))))) =
   stdout (snd (process_artifact (always (LatestText (Some ''2.0''))) (entry ''org.example'' ''lib'')
                  (world_with (Usable (Some [((''org.example'', ''lib''), Some ''2.0'')]))))) \<and>
   stdout (snd (process_artifact (always (RequestException ''timeout''))
                  (entry ''org.example'' ''lib'')
                  (world_with (Usable (Some [((''org.example'', ''lib''), Some ''2.0'')]))))) =
     [''Error fetching metadata: timeout'', ''- No new version available for org.example:lib.''] \<and>
   stdout (snd (process_artifact (always (LatestText (Some ''2.0''))) (entry ''org.example'' ''lib'')
                  (world_with (Usable (Some [((''org.example'', ''lib''), Some ''2.0'')]))))) =
     [''- No new version available for org.example:lib.''] \<and>
   stdout (snd (process_artifact (always (LatestText (Some ''3.1.0'')))
                  (entry ''org.example'' ''lib'') (world_with (Usable (Some []))))) =
   stdout (snd (process_artifact (always (LatestText (Some ''3.1.0'')))
                  (entry ''org.example'' ''lib'')
                  (world_with (Usable (Some [((''org.example'', ''lib''), Some ''3.0.0'')])))))"
  by (simp add: run_defs)

text \<open>
  Claim C5, amended. On a usable default database, for an entry with a non-empty group and
  name whose lookup ends in a version or in an exception that \<^verbatim>\<open>get_latest_version\<close> catches:
  the lines printed for the entry start with what the resolver reports for the response (the
  error line with its reason for a request or parse error, nothing otherwise), followed by
  a headline, and that headline is the only one among them. It is \<^verbatim>\<open>New version available\<close>
  with the version when the version found is non-empty and the stored one is absent or
  non-empty and different, and \<^verbatim>\<open>No new version available\<close> in every other case, an unchanged
  version and a failed lookup alike.
\<close>

theorem headline_per_artifact:
  assumes "files w default_db_path = Usable t"
    and "g \<noteq> []" and "a \<noteq> []"
    and "cur = fetchone_version (create_table_if_not_exists t) (g, a)"
    and "r = remote (length (requests w)) (metadata_url g a)"
    and "caught r"
    and "h = (if is_new (resolved r) cur then headline_new g a (resolved r)
              else headline_none g a)"
    and "w' = snd (process_artifact remote (entry g a) w)"
  shows "(\<exists>rest. stdout w' = stdout w @ reported r @ h # rest) \<and>
         filter (is_headline g a) (drop (length (stdout w)) (stdout w')) = [h]"
proof -
  have hl: "is_headline g a h"
    using assms(7) by (simp add: is_headline_new is_headline_none)
  have "\<exists>rest. stdout w' = stdout w @ reported r @ h # rest \<and> filter (is_headline g a) rest = []"
  proof (cases "is_new (resolved r) cur")
    case True
    then have "stdout w' = stdout w @ reported r @
        h # [subject_of g a, body_of g a (resolved r) (resolved r)]"
      using assms
      by (simp add: is_new_def process_entry reconcile_new [where cur = cur and r = r])
    then show ?thesis
      by (simp add: not_headline_subject not_headline_body)
  next
    case False
    show ?thesis
    proof (cases "cur = None")
      case c: False
      have "\<not> (truthy (resolved r) \<and> truthy cur \<and> resolved r \<noteq> cur)"
        using False by (auto simp: is_new_def)
      then have "stdout w' = stdout w @ reported r @ h # []"
        using assms False c
        by (simp add: process_entry reconcile_same [where cur = cur and r = r])
      then show ?thesis by simp
    next
      case c: True
      then have f: "\<not> truthy (resolved r)"
        using False by (simp add: is_new_def)
      let ?r2 = "remote (Suc (length (requests w))) (metadata_url g a)"
      show ?thesis
      proof (cases "caught ?r2")
        case True
        have "stdout w' = stdout w @ reported r @
            h # (reported ?r2 @ [first_added g a (resolved ?r2)])"
          using assms False c f True
          by (simp add: process_entry reconcile_retry [where r = r and ?r2.0 = ?r2])
        then show ?thesis
          by (simp add: not_headline_reported not_headline_first_added)
      next
        case r2: False
        then obtain e where "?r2 = OtherException e"
          by (cases ?r2) (simp_all add: caught_def)
        then have "stdout w' = stdout w @ reported r @ h # []"
          using assms False c f
          by (simp add: process_entry reconcile_retry_escapes [where r = r and e = e])
        then show ?thesis by simp
      qed
    qed
  qed
  then obtain rest where out: "stdout w' = stdout w @ reported r @ h # rest"
    and rest: "filter (is_headline g a) rest = []"
    by blast
  have "filter (is_headline g a) (drop (length (stdout w)) (stdout w')) = [h]"
    using out rest hl by (simp add: not_headline_reported)
  with out show ?thesis by blast
qed

theorem headline_per_artifact_witness:
  "(\<exists>rest. stdout (snd (process_artifact (always (RequestException ''timeout''))
                         (entry ''org.example'' ''lib'')
                         (world_with (Usable (Some [((''org.example'', ''lib''), Some ''2.0'')]))))) =
     (''Error fetching metadata: timeout'') # headline_none ''org.example'' ''lib'' # rest) \<and>
   filter (is_headline ''org.example'' ''lib'')
     (stdout (snd (process_artifact (always (RequestException ''timeout''))
                         (entry ''org.example'' ''lib'')
                         (world_with (Usable (Some [((''org.example'', ''lib''), Some ''2.0'')])))))) =
     [headline_none ''org.example'' ''lib'']"
  using headline_per_artifact
    [where w = "world_with (Usable (Some [((''org.example'', ''lib''), Some ''2.0'')]))"
       and t = "Some [((''org.example'', ''lib''), Some ''2.0'')]"
       and g = "''org.example''" and a = "''lib''"
       and remote = "always (RequestException ''timeout'')", OF _ _ _ refl refl _ refl refl]
  by (simp add: world_with_def always_def create_table_if_not_exists_def fetchone_version_def
      is_new_def resolved_def reported_def truthy_def caught_def)

subsection \<open>C6: one lookup per artifact\<close>

text \<open>
  Claim C6 says that the resolver is called once per artifact and run, with no second attempt
  after a failure. Where no version is stored and the first lookup fails, the branch after
  \<^verbatim>\<open>No new version available\<close> calls \<^verbatim>\<open>get_latest_version\<close> again: with an empty table and a
  repository that times out, the same URL is requested twice for one entry.
\<close>

theorem failed_resolution_is_retried:
  "requests
     (snd (process_artifact (always (RequestException ''timeout'')) (entry ''org.example'' ''lib'')
             (world_with (Usable (Some []))))) =
     [''https://repo1.maven.org/maven2/org/example/lib/maven-metadata.xml'',
      ''https://repo1.maven.org/maven2/org/example/lib/maven-metadata.xml'']"
  by (simp add: run_defs)

subsection \<open>C7: a second run with the same remote version\<close>

text \<open>
  Claim C7. On a usable default database, let an entry with a non-empty group and name be
  processed once, the lookup giving a non-empty version \<open>v\<close>, and let \<open>w1\<close> be the world
  after it. If the entry is processed again and the lookup gives \<open>v\<close> again, the second
  pass returns normally, prints only \<^verbatim>\<open>No new version available\<close>, commits no \<^verbatim>\<open>REPLACE\<close>, and
  leaves every database file, so the stored record, exactly as the first pass left it.
\<close>

theorem second_run_unchanged:
  assumes "files w default_db_path = Usable t"
    and "g \<noteq> []" and "a \<noteq> []"
    and "process_artifact remote (entry g a) w = (Inr (), w1)"
    and "remote (length (requests w)) (metadata_url g a) = LatestText (Some v)"
    and "v \<noteq> []"
    and "remote (length (requests w1)) (metadata_url g a) = LatestText (Some v)"
  shows "fst (process_artifact remote (entry g a) w1) = Inr () \<and>
         stdout (snd (process_artifact remote (entry g a) w1)) = stdout w1 @ [headline_none g a] \<and>
         commits (snd (process_artifact remote (entry g a) w1)) = commits w1 \<and>
         files (snd (process_artifact remote (entry g a) w1)) = files w1"
proof -
  let ?cur = "fetchone_version (create_table_if_not_exists t) (g, a)"
  let ?r = "LatestText (Some v)"
  have "\<exists>rows. files w1 default_db_path = Usable (Some rows) \<and>
          fetchone_version rows (g, a) \<noteq> None \<and>
          (truthy (fetchone_version rows (g, a)) \<longrightarrow> fetchone_version rows (g, a) = Some v)"
  proof (cases "?cur = None \<or> truthy ?cur \<and> resolved ?r \<noteq> ?cur")
    case True
    have "reconcile remote g a w = (Inr (),
      w\<lparr>files := (files w)(default_db_path :=
            Usable (Some (replace_into (create_table_if_not_exists t) (g, a) (resolved ?r)))),
        requests := requests w @ [metadata_url g a],
        commits := commits w @ [(default_db_path, (g, a), resolved ?r)],
        stdout := stdout w @ reported ?r @
          [headline_new g a (resolved ?r), subject_of g a,
           body_of g a (resolved ?r) (resolved ?r)]\<rparr>)"
      using assms True
      by (intro reconcile_new [where cur = ?cur]) (simp_all add: resolved_LatestText truthy_Some caught_LatestText)
    then show ?thesis
      using assms by (auto simp: process_entry resolved_LatestText fetchone_replace_into_same)
  next
    case False
    then have n: "?cur \<noteq> None" by simp
    have "reconcile remote g a w = (Inr (),
      w\<lparr>files := (files w)(default_db_path := Usable (Some (create_table_if_not_exists t))),
        requests := requests w @ [metadata_url g a],
        stdout := stdout w @ reported ?r @ [headline_none g a]\<rparr>)"
      using assms False n
      by (intro reconcile_same [where cur = ?cur]) (auto simp: resolved_LatestText caught_LatestText)
    then show ?thesis
      using assms False n by (auto simp: process_entry resolved_LatestText)
  qed
  then obtain rows where rows: "files w1 default_db_path = Usable (Some rows)"
    and nn: "fetchone_version rows (g, a) \<noteq> None"
    and same: "truthy (fetchone_version rows (g, a)) \<longrightarrow> fetchone_version rows (g, a) = Some v"
    by blast
  have "reconcile remote g a w1 = (Inr (),
      w1\<lparr>files := (files w1)(default_db_path :=
             Usable (Some (create_table_if_not_exists (Some rows)))),
        requests := requests w1 @ [metadata_url g a],
        stdout := stdout w1 @ reported ?r @ [headline_none g a]\<rparr>)"
    using assms(7) rows nn same
    by (intro reconcile_same [where cur = "fetchone_version rows (g, a)"])
       (auto simp: resolved_LatestText create_table_Some caught_LatestText)
  moreover have "(files w1)(default_db_path := Usable (Some rows)) = files w1"
    using rows by auto
  ultimately show ?thesis
    using assms(2,3) by (simp add: process_entry create_table_Some reported_LatestText)
qed

theorem second_run_unchanged_witness:
  "fst (process_artifact (always (LatestText (Some ''3.1.0''))) (entry ''org.example'' ''lib'')
          seen_once) = Inr () \<and>
   stdout (snd (process_artifact (always (LatestText (Some ''3.1.0'')))
                  (entry ''org.example'' ''lib'') seen_once)) =
     stdout seen_once @ [headline_none ''org.example'' ''lib''] \<and>
   commits (snd (process_artifact (always (LatestText (Some ''3.1.0'')))
                   (entry ''org.example'' ''lib'') seen_once)) = commits seen_once \<and>
   files (snd (process_artifact (always (LatestText (Some ''3.1.0'')))
                 (entry ''org.example'' ''lib'') seen_once)) = files seen_once"
proof (rule second_run_unchanged
         [where w = "world_with (Usable None)" and t = None and v = "''3.1.0''"])
  show "process_artifact (always (LatestText (Some ''3.1.0''))) (entry ''org.example'' ''lib'')
          (world_with (Usable None)) = (Inr (), seen_once)"
    by (simp add: seen_once_def prod_eq_iff run_defs)
qed (simp_all add: world_with_def always_def)

subsection \<open>C8: operations on a store that does not exist yet\<close>

text \<open>
  Claim C8 says that get, upsert and the listing all succeed on a store that was never
  created. \<^verbatim>\<open>get_current_version_from_db\<close> and \<^verbatim>\<open>update_current_version_in_db\<close> create the table
  first; \<^verbatim>\<open>print_current_versions\<close> does not. On a database without the table the listing
  prints a database error instead of the report for an empty store, and leaves the table
  missing.
\<close>

theorem listing_fails_on_fresh_store:
  "fst (print_current_versions default_db_path (world_with (Usable None))) = Inr () \<and>
   stdout (snd (print_current_versions default_db_path (world_with (Usable None)))) =
     [''Database error: no such table: versions''] \<and>
   files (snd (print_current_versions default_db_path (world_with (Usable None))))
     default_db_path = Usable None"
  by (simp add: run_defs)

subsection \<open>C9: failures stay with their artifact\<close>

text \<open>
  Claim C9 says that no failure of one artifact, a storage fault included, raises out of its
  processing or ends the batch. A lookup that fails with an exception \<^verbatim>\<open>get_latest_version\<close>
  catches and a failing SQL statement are contained (see \<open>main_loop_returns\<close> and
  \<open>batch_of_three_isolated\<close>). A database that cannot be
  opened is not: \<^verbatim>\<open>sqlite3.connect\<close> raises before \<^verbatim>\<open>conn\<close> is assigned, and the \<^verbatim>\<open>finally\<close> clause
  then raises \<^verbatim>\<open>UnboundLocalError\<close>. For a batch of three the loop ends with that exception at
  the first entry, before any lookup; \<^verbatim>\<open>main\<close> as a whole ends with it in
  \<^verbatim>\<open>print_current_versions\<close>.
\<close>

theorem connect_failure_aborts_batch:
  "fst (main_loop (always (LatestText (Some ''1.0'')))
          [entry ''org.example'' ''first'', entry ''org.example'' ''second'',
           entry ''org.example'' ''third'']
          (world_with (Unopenable ''unable to open database file''))) =
     Inl (UnboundLocalError ''conn'') \<and>
   requests (snd (main_loop (always (LatestText (Some ''1.0'')))
          [entry ''org.example'' ''first'', entry ''org.example'' ''second'',
           entry ''org.example'' ''third'']
          (world_with (Unopenable ''unable to open database file'')))) = [] \<and>
   fst (main (always (LatestText (Some ''1.0'')))
          (Loaded [entry ''org.example'' ''first'', entry ''org.example'' ''second'',
                   entry ''org.example'' ''third''])
          (Some [(''receiver'', ''ops@example.org'')])
          (world_with (Unopenable ''unable to open database file''))) =
     Inl (UnboundLocalError ''conn'')"
  by (simp add: run_defs)

subsection \<open>C10: upsert, then get\<close>

text \<open>
  Claim C10 as stated, for every database path, fails at the two paths that name no file.
  At \<^verbatim>\<open>:memory:\<close> the upsert returns normally and prints no error, but its row lives in a
  database that is gone when the connection is closed, and the get that follows opens an
  empty database and returns \<^verbatim>\<open>None\<close>.
\<close>

theorem private_database_forgets:
  "update_current_version_in_db ''org.example'' ''lib'' (Some ''3.1.0'') '':memory:''
       (world_with (Usable None)) =
     (Inr (), (world_with (Usable None))
        \<lparr>commits := [('':memory:'', (''org.example'', ''lib''), Some ''3.1.0'')]\<rparr>) \<and>
   fst (get_current_version_from_db ''org.example'' ''lib'' '':memory:''
          (snd (update_current_version_in_db ''org.example'' ''lib'' (Some ''3.1.0'') '':memory:''
                  (world_with (Usable None))))) = Inr None"
  by (simp add: update_current_version_in_db_def get_current_version_from_db_def private_db_def
      world_with_def create_table_if_not_exists_def fetchone_version_def)

text \<open>
  Claim C10, amended. For every group, name, version string \<open>v\<close> and every database path
  that names a file (any path but \<^verbatim>\<open>:memory:\<close> and the empty string): if
  \<^verbatim>\<open>update_current_version_in_db\<close> returns normally and prints no database error, then
  \<^verbatim>\<open>get_current_version_from_db\<close> on the resulting world returns \<open>v\<close> for that group and name,
  and the table at that path has exactly one row with that key.
\<close>

theorem upsert_then_get:
  assumes "\<not> private_db db_path"
    and "update_current_version_in_db g a (Some v) db_path w = (Inr (), w')"
    and "stdout w' = stdout w"
  shows "fst (get_current_version_from_db g a db_path w') = Inr (Some v) \<and>
         length (filter (\<lambda>r. fst r = (g, a)) (table_of (files w' db_path))) = 1"
proof (cases "files w db_path")
  case (Unopenable e)
  then show ?thesis
    using assms by (simp add: update_current_version_in_db_def)
next
  case (Unusable e)
  then show ?thesis
    using assms by (auto simp add: update_current_version_in_db_def print_def)
next
  case (Usable t)
  from Usable assms(1,2) have
    "files w' db_path = Usable (Some (replace_into (create_table_if_not_exists t) (g, a) (Some v)))"
    by (auto simp: update_usable)
  then have "fst (get_current_version_from_db g a db_path w') = Inr (Some v)"
    and "length (filter (\<lambda>r. fst r = (g, a)) (table_of (files w' db_path))) = 1"
    using assms(1)
    by (simp_all add: get_usable create_table_Some fetchone_replace_into_same)
       (simp add: table_of_def replace_into_def filter_filter_other)
  then show ?thesis by simp
qed

theorem upsert_then_get_witness:
  "fst (get_current_version_from_db ''org.example'' ''lib'' ''other.db''
          (snd (update_current_version_in_db ''org.example'' ''lib'' (Some ''3.1.0'') ''other.db''
                  (world_with (Usable None))))) = Inr (Some ''3.1.0'') \<and>
   length (filter (\<lambda>r. fst r = (''org.example'', ''lib''))
     (table_of (files
        (snd (update_current_version_in_db ''org.example'' ''lib'' (Some ''3.1.0'') ''other.db''
                (world_with (Usable None)))) ''other.db''))) = 1"
  by (rule upsert_then_get [where w = "world_with (Usable None)"])
     (simp_all add: prod_eq_iff update_current_version_in_db_def world_with_def default_db_path_def
        Let_def private_db_def)

end
